theory Spec2Isabelle
  imports Main "HOL-Library.Word"
begin

section \<open>The boxed-Short constructor bridge of ktnumpy (Short.c)\<close>

text \<open>
  The file \<^verbatim>\<open>src/main/ktnumpy/jni/source/java_classes/Short.c\<close> holds one static
  variable and one function:
  \<^verbatim>\<open>
  static jmethodID newShortID = 0;

  jobject java_lang_Short_new (JNIEnv *env, jshort s)
  {
    if (!JNI_METHOD(newShortID, env, SHORT_TYPE, "<init>", "(S)V"))
      {
        return NULL;
      }
    return (*env)->NewObject (env, SHORT_TYPE, newShortID, s);
  }
  \<close>
  The function talks to the Java runtime through the handle \<open>env\<close> and keeps the
  constructor's method identifier in the static variable. The embedding passes both
  pieces of state explicitly: the statics of the native library and the state of the
  Java runtime.
\<close>

subsection \<open>JNI types\<close>

text \<open>
  \<open>jshort\<close> is a signed 16-bit integer. \<open>jclass\<close>, \<open>jmethodID\<close> and \<open>jobject\<close>
  are opaque pointers; they are modelled as addresses, the address \<open>0\<close> being the
  null pointer. \<open>JNIEnv\<close> is the per-call handle of the runtime.
\<close>

type_synonym jshort = "16 word"
type_synonym jclass = nat
type_synonym jmethodID = nat
type_synonym jobject = nat
type_synonym JNIEnv = nat

abbreviation (input) NULL :: nat where
  "NULL \<equiv> 0"

subsection \<open>The Java runtime behind the handle\<close>

text \<open>
  The runtime is an external collaborator. Section 6 of the specification lists what
  the bridge consumes from it: the resolution of a constructor identifier given a class,
  a name and a signature, the construction of an object given a class, a constructor
  identifier and the argument, and an error channel that a failed call populates. The
  state below has just these parts, and it records every call made through the handle,
  so that what the bridge asks of the runtime can be observed (the instrumentation
  double of section 8).
\<close>

datatype throwable = NoSuchMethodError | InstantiationException | OutOfMemoryError

datatype jni_call =
    Call_GetMethodID JNIEnv jclass string string
  | Call_NewObject JNIEnv jclass jmethodID jshort

record jvm =
  method_table :: "((jclass \<times> string \<times> string) \<times> jmethodID) list"
  heap :: "(jclass \<times> jshort) list"
  heap_limit :: nat
  pending :: "throwable option"
  trace :: "jni_call list"

text \<open>
  The method identifier the runtime knows for a class, a name and a signature; the null
  pointer when the class or the method is not there.
\<close>

definition lookup_method :: "jvm \<Rightarrow> jclass \<Rightarrow> string \<Rightarrow> string \<Rightarrow> jmethodID" where
  "lookup_method vm clazz name sig =
     (case map_of (method_table vm) (clazz, name, sig) of
        None \<Rightarrow> NULL
      | Some mid \<Rightarrow> mid)"

text \<open>
  \<open>GetMethodID\<close> of the JNI: the method identifier, or the null pointer with
  \<open>NoSuchMethodError\<close> pending when the method cannot be found.
\<close>

definition GetMethodID ::
  "JNIEnv \<Rightarrow> jclass \<Rightarrow> string \<Rightarrow> string \<Rightarrow> jvm \<Rightarrow> jmethodID \<times> jvm" where
  "GetMethodID env clazz name sig vm =
     (let vm1 = vm\<lparr>trace := trace vm @ [Call_GetMethodID env clazz name sig]\<rparr>;
          mid = lookup_method vm clazz name sig
      in if mid = NULL then (NULL, vm1\<lparr>pending := Some NoSuchMethodError\<rparr>)
         else (mid, vm1))"

text \<open>
  \<open>NewObject\<close> of the JNI, for a constructor that takes one \<open>short\<close>: a reference
  to a new object of the class, holding the argument, or the null pointer with an
  exception pending when the object cannot be constructed (the identifier is not the
  class's constructor, or the heap is full). References are the positions of the heap,
  counted from one.
\<close>

definition NewObject ::
  "JNIEnv \<Rightarrow> jclass \<Rightarrow> jmethodID \<Rightarrow> jshort \<Rightarrow> jvm \<Rightarrow> jobject \<times> jvm" where
  "NewObject env clazz methodID s vm =
     (let vm1 = vm\<lparr>trace := trace vm @ [Call_NewObject env clazz methodID s]\<rparr>
      in if methodID = NULL \<or> lookup_method vm clazz ''<init>'' ''(S)V'' \<noteq> methodID
         then (NULL, vm1\<lparr>pending := Some InstantiationException\<rparr>)
         else if heap_limit vm \<le> length (heap vm)
         then (NULL, vm1\<lparr>pending := Some OutOfMemoryError\<rparr>)
         else (Suc (length (heap vm)), vm1\<lparr>heap := heap vm @ [(clazz, s)]\<rparr>))"

text \<open>Unboxing: the \<open>short\<close> held by the object behind a reference.\<close>

definition shortValue :: "jvm \<Rightarrow> jobject \<Rightarrow> jshort option" where
  "shortValue vm obj =
     (if obj = NULL \<or> length (heap vm) < obj then None
      else Some (snd (heap vm ! (obj - 1))))"

text \<open>The calls of each kind that the runtime has seen.\<close>

fun is_lookup :: "jni_call \<Rightarrow> bool" where
  "is_lookup (Call_GetMethodID env clazz name sig) = True"
| "is_lookup (Call_NewObject env clazz methodID s) = False"

definition lookups :: "jvm \<Rightarrow> nat" where
  "lookups vm = length (filter is_lookup (trace vm))"

definition construction_calls :: "jvm \<Rightarrow> nat" where
  "construction_calls vm = length (filter (\<lambda>c. \<not> is_lookup c) (trace vm))"

subsection \<open>The statics of the native library\<close>

text \<open>
  \<open>newShortID\<close> is the static variable of Short.c, null when the process starts.
  \<open>SHORT_TYPE\<close> is declared in \<^verbatim>\<open>ktnumpy_includes.h\<close>, which is not among the
  sources. Short.c passes it where the JNI expects a \<open>jclass\<close>, so it is the class
  handle of the boxed type; it is taken as a parameter, a static that the bridge only
  reads. Every other static of the process is in the extension of the record.
\<close>

record globals =
  newShortID :: jmethodID
  SHORT_TYPE :: jclass

text \<open>
  Modelled from the spec: the macro \<open>JNI_METHOD\<close> is defined in
  \<^verbatim>\<open>ktnumpy_includes.h\<close>, which is not among the sources. Section 4.1, step 1 of
  the specification: ``lazily resolve and cache the target type's constructor identifier
  if not already cached; resolution uses the environment handle to look up the boxed
  type's class descriptor and the specific constructor signature''. The macro's value is
  the variable after the step (null when resolution failed), and the caller stores it.
\<close>

definition JNI_METHOD ::
  "jmethodID \<Rightarrow> JNIEnv \<Rightarrow> jclass \<Rightarrow> string \<Rightarrow> string \<Rightarrow> jvm \<Rightarrow> jmethodID \<times> jvm" where
  "JNI_METHOD var env type name sig vm =
     (if var \<noteq> NULL then (var, vm) else GetMethodID env type name sig vm)"

subsection \<open>Short.c\<close>

definition java_lang_Short_new ::
  "JNIEnv \<Rightarrow> jshort \<Rightarrow> 'a globals_scheme \<times> jvm \<Rightarrow> jobject \<times> 'a globals_scheme \<times> jvm" where
  "java_lang_Short_new env s st =
     (case st of (g, vm) \<Rightarrow>
        (case JNI_METHOD (newShortID g) env (SHORT_TYPE g) ''<init>'' ''(S)V'' vm of
           (mid, vm1) \<Rightarrow>
             (let g1 = g\<lparr>newShortID := mid\<rparr>
              in if mid = NULL then (NULL, g1, vm1)
                 else (case NewObject env (SHORT_TYPE g1) (newShortID g1) s vm1 of
                         (obj, vm2) \<Rightarrow> (obj, g1, vm2)))))"


text \<open>The condition of the \<^verbatim>\<open>if\<close>: the macro's value is null.\<close>

definition resolution_fails :: "JNIEnv \<Rightarrow> 'a globals_scheme \<Rightarrow> jvm \<Rightarrow> bool" where
  "resolution_fails env g vm \<longleftrightarrow>
     fst (JNI_METHOD (newShortID g) env (SHORT_TYPE g) ''<init>'' ''(S)V'' vm) = NULL"

subsection \<open>Callers and environments\<close>

text \<open>
  A caller that invokes the bridge once for each pair of a handle and a value, in order,
  and collects the references. Statements about ``every subsequent call'' are about it.
\<close>

fun calls ::
  "(JNIEnv \<times> jshort) list \<Rightarrow> 'a globals_scheme \<times> jvm \<Rightarrow>
     jobject list \<times> 'a globals_scheme \<times> jvm" where
  "calls [] st = ([], st)"
| "calls ((env, s) # args) st =
     (case java_lang_Short_new env s st of
        (obj, st1) \<Rightarrow> (case calls args st1 of (objs, st2) \<Rightarrow> (obj # objs, st2)))"

text \<open>
  A correctly configured environment: the runtime knows the constructor \<open>(S)V\<close> of
  the class behind \<open>SHORT_TYPE\<close>, the cached identifier is either still empty or the
  one the runtime knows, and the heap has room for the objects to be constructed.
\<close>

definition ctor_available :: "'a globals_scheme \<Rightarrow> jvm \<Rightarrow> bool" where
  "ctor_available g vm \<longleftrightarrow> lookup_method vm (SHORT_TYPE g) ''<init>'' ''(S)V'' \<noteq> NULL"

definition cache_valid :: "'a globals_scheme \<Rightarrow> jvm \<Rightarrow> bool" where
  "cache_valid g vm \<longleftrightarrow>
     newShortID g = NULL \<or>
     newShortID g = lookup_method vm (SHORT_TYPE g) ''<init>'' ''(S)V''"

definition can_allocate :: "nat \<Rightarrow> jvm \<Rightarrow> bool" where
  "can_allocate n vm \<longleftrightarrow> length (heap vm) + n \<le> heap_limit vm"

text \<open>
  Concrete states: a runtime that knows the constructor under the identifier 42, with an
  empty heap of three places, and the statics at process start. Without the method table
  the environment is misconfigured; with no place on the heap, construction fails.
\<close>

definition example_jvm :: jvm where
  "example_jvm =
     \<lparr>method_table = [((7, ''<init>'', ''(S)V''), 42)], heap = [], heap_limit = 3,
      pending = None, trace = []\<rparr>"

definition example_globals :: globals where
  "example_globals = \<lparr>newShortID = NULL, SHORT_TYPE = 7\<rparr>"

definition misconfigured_jvm :: jvm where
  "misconfigured_jvm = example_jvm\<lparr>method_table := []\<rparr>"

definition exhausted_jvm :: jvm where
  "exhausted_jvm = example_jvm\<lparr>heap_limit := 0\<rparr>"


section \<open>Properties\<close>

subsection \<open>The runtime's primitives\<close>

lemmas example_defs =
  example_jvm_def example_globals_def misconfigured_jvm_def exhausted_jvm_def

lemmas bridge_defs =
  java_lang_Short_new_def JNI_METHOD_def GetMethodID_def NewObject_def lookup_method_def

lemma lookup_method_trace [simp]: "lookup_method (vm\<lparr>trace := t\<rparr>) = lookup_method vm"
  by (simp add: lookup_method_def fun_eq_iff)

lemma lookup_method_pending [simp]: "lookup_method (vm\<lparr>pending := e\<rparr>) = lookup_method vm"
  by (simp add: lookup_method_def fun_eq_iff)

lemma lookup_method_heap [simp]: "lookup_method (vm\<lparr>heap := h\<rparr>) = lookup_method vm"
  by (simp add: lookup_method_def fun_eq_iff)

lemma fst_GetMethodID [simp]:
  "fst (GetMethodID env clazz name sig vm) = lookup_method vm clazz name sig"
  by (simp add: GetMethodID_def Let_def)

lemma snd_GetMethodID:
  "snd (GetMethodID env clazz name sig vm) =
     (if lookup_method vm clazz name sig = NULL
      then vm\<lparr>trace := trace vm @ [Call_GetMethodID env clazz name sig],
              pending := Some NoSuchMethodError\<rparr>
      else vm\<lparr>trace := trace vm @ [Call_GetMethodID env clazz name sig]\<rparr>)"
  by (simp add: GetMethodID_def Let_def)

lemma GetMethodID_frame [simp]:
  "heap (snd (GetMethodID env clazz name sig vm)) = heap vm"
  "heap_limit (snd (GetMethodID env clazz name sig vm)) = heap_limit vm"
  "method_table (snd (GetMethodID env clazz name sig vm)) = method_table vm"
  "trace (snd (GetMethodID env clazz name sig vm)) =
     trace vm @ [Call_GetMethodID env clazz name sig]"
  "lookup_method (snd (GetMethodID env clazz name sig vm)) = lookup_method vm"
  by (simp_all add: snd_GetMethodID)

lemma NewObject_trace [simp]:
  "trace (snd (NewObject env clazz mid s vm)) = trace vm @ [Call_NewObject env clazz mid s]"
  by (simp add: NewObject_def Let_def)

lemma NewObject_frame [simp]:
  "method_table (snd (NewObject env clazz mid s vm)) = method_table vm"
  "heap_limit (snd (NewObject env clazz mid s vm)) = heap_limit vm"
  "lookup_method (snd (NewObject env clazz mid s vm)) = lookup_method vm"
  by (simp_all add: NewObject_def Let_def)

lemma NewObject_success:
  assumes "mid \<noteq> NULL" and "lookup_method vm clazz ''<init>'' ''(S)V'' = mid"
    and "length (heap vm) < heap_limit vm"
  shows "NewObject env clazz mid s vm =
     (Suc (length (heap vm)),
      vm\<lparr>trace := trace vm @ [Call_NewObject env clazz mid s],
         heap := heap vm @ [(clazz, s)]\<rparr>)"
  using assms by (simp add: NewObject_def Let_def)

lemma NewObject_failure_pending:
  "fst (NewObject env clazz mid s vm) = NULL \<Longrightarrow>
   pending (snd (NewObject env clazz mid s vm)) \<noteq> None"
  by (auto simp: NewObject_def Let_def split: if_splits)

lemma lookups_GetMethodID [simp]:
  "lookups (snd (GetMethodID env clazz name sig vm)) = Suc (lookups vm)"
  by (simp add: lookups_def)

lemma lookups_NewObject [simp]:
  "lookups (snd (NewObject env clazz mid s vm)) = lookups vm"
  by (simp add: lookups_def)

lemma construction_calls_GetMethodID [simp]:
  "construction_calls (snd (GetMethodID env clazz name sig vm)) = construction_calls vm"
  by (simp add: construction_calls_def)

lemma shortValue_fresh:
  "heap vm' = h @ [(c, v)] \<Longrightarrow> shortValue vm' (Suc (length h)) = Some v"
  by (simp add: shortValue_def)

lemma shortValue_append:
  "heap vm' = heap vm @ h \<Longrightarrow> shortValue vm r = Some v \<Longrightarrow> shortValue vm' r = Some v"
  by (auto simp: shortValue_def nth_append split: if_splits)

subsection \<open>The three paths through the bridge\<close>

lemma resolution_fails_iff:
  "resolution_fails env g vm \<longleftrightarrow>
     newShortID g = NULL \<and> lookup_method vm (SHORT_TYPE g) ''<init>'' ''(S)V'' = NULL"
  by (auto simp: resolution_fails_def JNI_METHOD_def)

text \<open>The identifier is cached: no lookup, the construction call decides the result.\<close>

lemma bridge_cached:
  assumes "newShortID g \<noteq> NULL"
  shows "java_lang_Short_new env s (g, vm) =
     (fst (NewObject env (SHORT_TYPE g) (newShortID g) s vm), g,
      snd (NewObject env (SHORT_TYPE g) (newShortID g) s vm))"
  using assms by (simp add: java_lang_Short_new_def JNI_METHOD_def split: prod.splits)

text \<open>The cache is empty and the lookup fails: the early return.\<close>

lemma bridge_unresolved:
  assumes "resolution_fails env g vm"
  shows "java_lang_Short_new env s (g, vm) =
     (NULL, g, snd (GetMethodID env (SHORT_TYPE g) ''<init>'' ''(S)V'' vm))"
proof -
  from assms have c: "newShortID g = NULL"
    and l: "lookup_method vm (SHORT_TYPE g) ''<init>'' ''(S)V'' = NULL"
    by (simp_all add: resolution_fails_iff)
  have "g\<lparr>newShortID := NULL\<rparr> = g" using c by simp
  with c l show ?thesis
    by (simp add: java_lang_Short_new_def JNI_METHOD_def GetMethodID_def Let_def)
qed

text \<open>The cache is empty and the lookup succeeds: the identifier is stored and used.\<close>

lemma bridge_resolved:
  assumes "newShortID g = NULL"
    and "lookup_method vm (SHORT_TYPE g) ''<init>'' ''(S)V'' = mid" and "mid \<noteq> NULL"
  shows "java_lang_Short_new env s (g, vm) =
     (fst (NewObject env (SHORT_TYPE g) mid s
            (snd (GetMethodID env (SHORT_TYPE g) ''<init>'' ''(S)V'' vm))),
      g\<lparr>newShortID := mid\<rparr>,
      snd (NewObject env (SHORT_TYPE g) mid s
            (snd (GetMethodID env (SHORT_TYPE g) ''<init>'' ''(S)V'' vm))))"
  using assms
  by (simp add: java_lang_Short_new_def JNI_METHOD_def GetMethodID_def Let_def
      split: prod.splits)

lemma bridge_globals:
  "fst (snd (java_lang_Short_new env s (g, vm))) =
     (if newShortID g \<noteq> NULL then g
      else g\<lparr>newShortID := lookup_method vm (SHORT_TYPE g) ''<init>'' ''(S)V''\<rparr>)"
  by (simp add: java_lang_Short_new_def JNI_METHOD_def Let_def case_prod_beta)

lemma bridge_lookup_method:
  "lookup_method (snd (snd (java_lang_Short_new env s (g, vm)))) = lookup_method vm"
  by (simp add: java_lang_Short_new_def JNI_METHOD_def Let_def case_prod_beta)

subsection \<open>The cache at process start and afterwards\<close>

lemma cache_valid_initial: "newShortID g = NULL \<Longrightarrow> cache_valid g vm"
  by (simp add: cache_valid_def)

lemma cache_valid_preserved:
  assumes "cache_valid g vm"
  shows "cache_valid (fst (snd (java_lang_Short_new env s (g, vm))))
           (snd (snd (java_lang_Short_new env s (g, vm))))"
  using assms by (auto simp: cache_valid_def bridge_globals bridge_lookup_method)

lemma ctor_available_preserved:
  assumes "ctor_available g vm"
  shows "ctor_available (fst (snd (java_lang_Short_new env s (g, vm))))
           (snd (snd (java_lang_Short_new env s (g, vm))))"
  using assms by (simp add: ctor_available_def bridge_globals bridge_lookup_method)

text \<open>In a configured environment the bridge allocates the next place of the heap.\<close>

lemma bridge_configured:
  assumes "ctor_available g vm" and "cache_valid g vm" and "can_allocate (Suc n) vm"
  shows "java_lang_Short_new env v (g, vm) =
     (Suc (length (heap vm)),
      g\<lparr>newShortID := lookup_method vm (SHORT_TYPE g) ''<init>'' ''(S)V''\<rparr>,
      snd (snd (java_lang_Short_new env v (g, vm)))) \<and>
     heap (snd (snd (java_lang_Short_new env v (g, vm)))) = heap vm @ [(SHORT_TYPE g, v)] \<and>
     heap_limit (snd (snd (java_lang_Short_new env v (g, vm)))) = heap_limit vm \<and>
     lookup_method (snd (snd (java_lang_Short_new env v (g, vm)))) = lookup_method vm"
proof -
  let ?mid = "lookup_method vm (SHORT_TYPE g) ''<init>'' ''(S)V''"
  from assms have m: "?mid \<noteq> NULL" and room: "length (heap vm) < heap_limit vm"
    by (simp_all add: ctor_available_def can_allocate_def)
  show ?thesis
  proof (cases "newShortID g = NULL")
    case True
    let ?vm1 = "snd (GetMethodID env (SHORT_TYPE g) ''<init>'' ''(S)V'' vm)"
    have "NewObject env (SHORT_TYPE g) ?mid v ?vm1 =
        (Suc (length (heap ?vm1)),
         ?vm1\<lparr>trace := trace ?vm1 @ [Call_NewObject env (SHORT_TYPE g) ?mid v],
               heap := heap ?vm1 @ [(SHORT_TYPE g, v)]\<rparr>)"
      using m room by (intro NewObject_success) simp_all
    then show ?thesis
      using bridge_resolved [OF True refl m, of env v] by simp
  next
    case False
    with assms(2) have c: "newShortID g = ?mid" by (simp add: cache_valid_def)
    have "NewObject env (SHORT_TYPE g) (newShortID g) v vm =
        (Suc (length (heap vm)),
         vm\<lparr>trace := trace vm @ [Call_NewObject env (SHORT_TYPE g) (newShortID g) v],
            heap := heap vm @ [(SHORT_TYPE g, v)]\<rparr>)"
      using False c room by (intro NewObject_success) simp_all
    moreover have "g\<lparr>newShortID := ?mid\<rparr> = g" using c by simp
    ultimately show ?thesis
      using bridge_cached [OF False, of env v vm] by simp
  qed
qed

subsection \<open>Sequences of calls\<close>



text \<open>
  The scenario of section 8 of the specification: in a configured environment the values
  0, -1 and 32767 are boxed behind three different references, after one lookup.
\<close>

lemma scenario_configured:
  "calls [(1, 0), (1, - 1), (1, 32767)] (example_globals, example_jvm) =
     ([1, 2, 3], example_globals\<lparr>newShortID := 42\<rparr>,
      example_jvm\<lparr>heap := [(7, 0), (7, - 1), (7, 32767)],
        trace := [Call_GetMethodID 1 7 ''<init>'' ''(S)V'', Call_NewObject 1 7 42 0,
                  Call_NewObject 1 7 42 (- 1), Call_NewObject 1 7 42 32767]\<rparr>)"
  by (simp add: bridge_defs example_defs)

lemma scenario_misconfigured:
  "java_lang_Short_new 1 5 (example_globals, misconfigured_jvm) =
     (NULL, example_globals,
      misconfigured_jvm\<lparr>pending := Some NoSuchMethodError,
        trace := [Call_GetMethodID 1 7 ''<init>'' ''(S)V'']\<rparr>)"
  by (simp add: bridge_defs example_defs)


section \<open>The claims of the specification\<close>

text \<open>
  Claim C1. For every 16-bit value \<open>v\<close>, a call of the bridge in a correctly configured
  environment returns a reference that is not null and whose unboxed value is \<open>v\<close>.
  Correctly configured means: the runtime resolves the constructor, the cached identifier
  is empty or the one the runtime knows (it is, from process start on, by
  \<open>cache_valid_initial\<close> and \<open>cache_valid_preserved\<close>), and the runtime can construct
  one more object.
\<close>

theorem java_lang_Short_new_boxes_value:
  assumes "ctor_available g vm" and "cache_valid g vm" and "can_allocate 1 vm"
  shows "case java_lang_Short_new env v (g, vm) of
           (obj, g', vm') \<Rightarrow> obj \<noteq> NULL \<and> shortValue vm' obj = Some v"
proof -
  obtain obj g' vm' where r: "java_lang_Short_new env v (g, vm) = (obj, g', vm')"
    by (cases "java_lang_Short_new env v (g, vm)")
  from assms have "can_allocate (Suc 0) vm" by simp
  from bridge_configured [OF assms(1,2) this, of env v] r
  have "obj = Suc (length (heap vm))" and "heap vm' = heap vm @ [(SHORT_TYPE g, v)]"
    by simp_all
  then have "obj \<noteq> NULL" and "shortValue vm' obj = Some v"
    by (simp_all add: shortValue_fresh)
  with r show ?thesis by simp
qed

theorem java_lang_Short_new_boxes_value_witness:
  "ctor_available example_globals example_jvm \<and>
   cache_valid example_globals example_jvm \<and> can_allocate 1 example_jvm \<and>
   (case java_lang_Short_new 1 (- 1) (example_globals, example_jvm) of
      (obj, g', vm') \<Rightarrow> obj \<noteq> NULL \<and> shortValue vm' obj = Some (- 1))"
proof -
  have a: "ctor_available example_globals example_jvm"
    by (simp add: ctor_available_def lookup_method_def example_defs)
  have b: "cache_valid example_globals example_jvm"
    by (simp add: cache_valid_def example_defs)
  have c: "can_allocate 1 example_jvm"
    by (simp add: can_allocate_def example_defs)
  from a b c java_lang_Short_new_boxes_value [OF a b c, where env = 1 and v = "- 1"] show ?thesis
    by blast
qed

text \<open>
  Claim C2. If the resolution of the constructor identifier fails, the bridge returns
  null at once and allocates nothing: the heap is as before, and the failed lookup is
  the only call the runtime has seen.
\<close>

theorem resolution_failure_returns_null_without_allocation:
  assumes "resolution_fails env g vm"
  shows "case java_lang_Short_new env s (g, vm) of
           (obj, g', vm') \<Rightarrow>
             obj = NULL \<and> heap vm' = heap vm \<and> construction_calls vm' = construction_calls vm \<and>
             trace vm' = trace vm @ [Call_GetMethodID env (SHORT_TYPE g) ''<init>'' ''(S)V'']"
  using bridge_unresolved [OF assms, of s] by simp

theorem resolution_failure_returns_null_without_allocation_witness:
  "resolution_fails 1 example_globals misconfigured_jvm \<and>
   (case java_lang_Short_new 1 5 (example_globals, misconfigured_jvm) of
      (obj, g', vm') \<Rightarrow>
        obj = NULL \<and> heap vm' = [] \<and> construction_calls vm' = 0 \<and>
        trace vm' = [Call_GetMethodID 1 7 ''<init>'' ''(S)V''])"
proof -
  have a: "resolution_fails 1 example_globals misconfigured_jvm"
    by (simp add: resolution_fails_iff lookup_method_def example_defs)
  have "heap misconfigured_jvm = []" and "trace misconfigured_jvm = []"
    and "construction_calls misconfigured_jvm = 0" and "SHORT_TYPE example_globals = 7"
    by (simp_all add: construction_calls_def example_defs)
  with a resolution_failure_returns_null_without_allocation [OF a, where s = 5] show ?thesis
    by (simp add: case_prod_beta)
qed



text \<open>
  Claim C4. On failure the bridge leaves the runtime's pending exception for the caller:
  whenever it returns null an exception is pending, and when the resolution failed the
  runtime is exactly as the failed lookup left it, \<open>NoSuchMethodError\<close> pending; the
  bridge has not cleared, translated or wrapped it.
\<close>

theorem failure_leaves_exception_pending:
  assumes "java_lang_Short_new env s (g, vm) = (obj, g', vm')" and "obj = NULL"
  shows "pending vm' \<noteq> None \<and>
         (resolution_fails env g vm \<longrightarrow>
            pending vm' = Some NoSuchMethodError \<and>
            vm' = snd (GetMethodID env (SHORT_TYPE g) ''<init>'' ''(S)V'' vm))"
proof (cases "resolution_fails env g vm")
  case True
  then have l: "lookup_method vm (SHORT_TYPE g) ''<init>'' ''(S)V'' = NULL"
    by (simp add: resolution_fails_iff)
  from bridge_unresolved [OF True, of s] assms(1)
  have "vm' = snd (GetMethodID env (SHORT_TYPE g) ''<init>'' ''(S)V'' vm)" by simp
  with l True show ?thesis by (simp add: snd_GetMethodID)
next
  case False
  show ?thesis
  proof (cases "newShortID g = NULL")
    case c: True
    with False have m: "lookup_method vm (SHORT_TYPE g) ''<init>'' ''(S)V'' \<noteq> NULL"
      by (simp add: resolution_fails_iff)
    from bridge_resolved [OF c refl m, of env s] assms
    show ?thesis using False by (auto dest: NewObject_failure_pending)
  next
    case c: False
    from bridge_cached [OF c, of env s vm] assms
    show ?thesis using False by (auto dest: NewObject_failure_pending)
  qed
qed

theorem failure_leaves_exception_pending_witness:
  "java_lang_Short_new 1 5 (example_globals, misconfigured_jvm) =
     (NULL, example_globals,
      misconfigured_jvm\<lparr>pending := Some NoSuchMethodError,
        trace := [Call_GetMethodID 1 7 ''<init>'' ''(S)V'']\<rparr>) \<and>
   resolution_fails 1 example_globals misconfigured_jvm \<and>
   pending (misconfigured_jvm\<lparr>pending := Some NoSuchMethodError,
        trace := [Call_GetMethodID 1 7 ''<init>'' ''(S)V'']\<rparr>) = Some NoSuchMethodError \<and>
   misconfigured_jvm\<lparr>pending := Some NoSuchMethodError,
        trace := [Call_GetMethodID 1 7 ''<init>'' ''(S)V'']\<rparr> =
     snd (GetMethodID 1 (SHORT_TYPE example_globals) ''<init>'' ''(S)V'' misconfigured_jvm)"
proof -
  let ?vm' = "misconfigured_jvm\<lparr>pending := Some NoSuchMethodError,
        trace := [Call_GetMethodID 1 7 ''<init>'' ''(S)V'']\<rparr>"
  have a: "java_lang_Short_new 1 5 (example_globals, misconfigured_jvm) =
      (NULL, example_globals, ?vm')"
    by (simp add: bridge_defs example_defs)
  have b: "resolution_fails 1 example_globals misconfigured_jvm"
    by (simp add: resolution_fails_iff lookup_method_def example_defs)
  from a b failure_leaves_exception_pending [OF a refl] show ?thesis
    by blast
qed

text \<open>
  Claim C5. Two calls of the bridge with the same handle and two different values, in an
  environment that is correctly configured and can construct two more objects, return
  two different references, neither of them null, whose unboxed values are the two
  values.
\<close>

theorem two_calls_return_distinct_references:
  assumes "ctor_available g vm" and "cache_valid g vm" and "can_allocate 2 vm"
    and "v1 \<noteq> v2"
  shows "case java_lang_Short_new env v1 (g, vm) of
           (r1, st1) \<Rightarrow>
             (case java_lang_Short_new env v2 st1 of
                (r2, g2, vm2) \<Rightarrow>
                  r1 \<noteq> NULL \<and> r2 \<noteq> NULL \<and> r1 \<noteq> r2 \<and>
                  shortValue vm2 r1 = Some v1 \<and> shortValue vm2 r2 = Some v2)"
proof -
  let ?mid = "lookup_method vm (SHORT_TYPE g) ''<init>'' ''(S)V''"
  obtain r1 g1 vm1 where c1: "java_lang_Short_new env v1 (g, vm) = (r1, g1, vm1)"
    by (cases "java_lang_Short_new env v1 (g, vm)")
  obtain r2 g2 vm2 where c2: "java_lang_Short_new env v2 (g1, vm1) = (r2, g2, vm2)"
    by (cases "java_lang_Short_new env v2 (g1, vm1)")
  from assms(3) have room: "can_allocate (Suc 1) vm" by (simp add: numeral_2_eq_2)
  from bridge_configured [OF assms(1,2) room, of env v1] c1
  have r1: "r1 = Suc (length (heap vm))" and g1: "g1 = g\<lparr>newShortID := ?mid\<rparr>"
    and h1: "heap vm1 = heap vm @ [(SHORT_TYPE g, v1)]"
    and l1: "heap_limit vm1 = heap_limit vm" and t1: "lookup_method vm1 = lookup_method vm"
    by simp_all
  have a1: "ctor_available g1 vm1" using assms(1) by (simp add: ctor_available_def g1 t1)
  have b1: "cache_valid g1 vm1" by (simp add: cache_valid_def g1 t1)
  have d1: "can_allocate (Suc 0) vm1" using room by (simp add: can_allocate_def h1 l1)
  from bridge_configured [OF a1 b1 d1, of env v2] c2
  have r2: "r2 = Suc (length (heap vm1))"
    and h2: "heap vm2 = heap vm1 @ [(SHORT_TYPE g1, v2)]"
    by simp_all
  have "shortValue vm1 r1 = Some v1" unfolding r1 using h1 by (rule shortValue_fresh)
  with h2 have "shortValue vm2 r1 = Some v1" by (rule shortValue_append)
  moreover have "shortValue vm2 r2 = Some v2" unfolding r2 using h2 by (rule shortValue_fresh)
  moreover have "r1 \<noteq> r2" by (simp add: r1 r2 h1)
  moreover have "r1 \<noteq> NULL" "r2 \<noteq> NULL" by (simp_all add: r1 r2)
  ultimately show ?thesis by (simp add: c1 c2)
qed

theorem two_calls_return_distinct_references_witness:
  "ctor_available example_globals example_jvm \<and>
   cache_valid example_globals example_jvm \<and> can_allocate 2 example_jvm \<and>
   (0 :: jshort) \<noteq> - 1 \<and>
   (case java_lang_Short_new 1 0 (example_globals, example_jvm) of
      (r1, st1) \<Rightarrow>
        (case java_lang_Short_new 1 (- 1) st1 of
           (r2, g2, vm2) \<Rightarrow>
             r1 \<noteq> NULL \<and> r2 \<noteq> NULL \<and> r1 \<noteq> r2 \<and>
             shortValue vm2 r1 = Some 0 \<and> shortValue vm2 r2 = Some (- 1)))"
proof -
  have a: "ctor_available example_globals example_jvm"
    by (simp add: ctor_available_def lookup_method_def example_defs)
  have b: "cache_valid example_globals example_jvm"
    by (simp add: cache_valid_def example_defs)
  have c: "can_allocate 2 example_jvm"
    by (simp add: can_allocate_def example_defs)
  have d: "(0 :: jshort) \<noteq> - 1" by simp
  from a b c d two_calls_return_distinct_references [OF a b c d, where env = 1] show ?thesis
    by blast
qed


text \<open>
  Claim C6. The failure of the resolution is the only failure the bridge itself detects:
  for every input, either the resolution failed and the bridge returns null with the
  runtime as the resolution left it, or the bridge returns just what the construction
  call of the runtime returned, made with the class and the resolved identifier.
\<close>

theorem resolution_failure_is_the_only_failure_detected:
  "case java_lang_Short_new env s (g, vm) of
     (obj, g', vm') \<Rightarrow>
       if resolution_fails env g vm
       then obj = NULL \<and>
            vm' = snd (JNI_METHOD (newShortID g) env (SHORT_TYPE g) ''<init>'' ''(S)V'' vm)
       else (obj, vm') =
            NewObject env (SHORT_TYPE g) (newShortID g') s
              (snd (JNI_METHOD (newShortID g) env (SHORT_TYPE g) ''<init>'' ''(S)V'' vm))"
  by (simp add: java_lang_Short_new_def resolution_fails_def Let_def split: prod.splits)

theorem resolution_failure_is_the_only_failure_detected_witness:
  "resolution_fails 1 example_globals misconfigured_jvm \<and>
   fst (java_lang_Short_new 1 5 (example_globals, misconfigured_jvm)) = NULL \<and>
   \<not> resolution_fails 1 example_globals example_jvm \<and>
   (case java_lang_Short_new 1 32767 (example_globals, example_jvm) of
      (obj, g', vm') \<Rightarrow>
        (obj, vm') =
        NewObject 1 (SHORT_TYPE example_globals) (newShortID g') 32767
          (snd (JNI_METHOD (newShortID example_globals) 1 (SHORT_TYPE example_globals)
                 ''<init>'' ''(S)V'' example_jvm)))"
proof -
  have a: "resolution_fails 1 example_globals misconfigured_jvm"
    by (simp add: resolution_fails_iff lookup_method_def example_defs)
  have b: "\<not> resolution_fails 1 example_globals example_jvm"
    by (simp add: resolution_fails_iff lookup_method_def example_defs)
  from a b
    resolution_failure_is_the_only_failure_detected
      [where env = 1 and s = 5 and g = example_globals and vm = misconfigured_jvm]
    resolution_failure_is_the_only_failure_detected
      [where env = 1 and s = 32767 and g = example_globals and vm = example_jvm]
  show ?thesis by (simp add: case_prod_beta)
qed

text \<open>
  Claim C7. The cached identifier is set only by a successful resolution. A call changes
  \<open>newShortID\<close> only if the cache was empty and the lookup succeeded, and then it
  stores what the lookup returned. If the resolution fails, the statics are unchanged,
  the cache is still empty, and a later call, with whatever handle, value and runtime
  state, starts with the lookup again.
\<close>

theorem cache_set_only_by_successful_resolution:
  assumes "java_lang_Short_new env s (g, vm) = (obj, g', vm')"
  shows "(newShortID g' \<noteq> newShortID g \<longrightarrow>
            \<not> resolution_fails env g vm \<and> newShortID g = NULL \<and>
            newShortID g' = fst (GetMethodID env (SHORT_TYPE g) ''<init>'' ''(S)V'' vm)) \<and>
         (resolution_fails env g vm \<longrightarrow>
            g' = g \<and> newShortID g' = NULL \<and>
            (\<forall>env2 s2 vm2. \<exists>rest.
               trace (snd (snd (java_lang_Short_new env2 s2 (g', vm2)))) =
               trace vm2 @ Call_GetMethodID env2 (SHORT_TYPE g) ''<init>'' ''(S)V'' # rest))"
proof (intro conjI impI)
  assume ch: "newShortID g' \<noteq> newShortID g"
  show nf: "\<not> resolution_fails env g vm"
  proof
    assume "resolution_fails env g vm"
    from bridge_unresolved [OF this, of s] assms ch show False by simp
  qed
  show c: "newShortID g = NULL"
  proof (rule ccontr)
    assume "newShortID g \<noteq> NULL"
    from bridge_cached [OF this, of env s vm] assms ch show False by simp
  qed
  from nf c have m: "lookup_method vm (SHORT_TYPE g) ''<init>'' ''(S)V'' \<noteq> NULL"
    by (simp add: resolution_fails_iff)
  from bridge_resolved [OF c refl m, of env s] assms
  show "newShortID g' = fst (GetMethodID env (SHORT_TYPE g) ''<init>'' ''(S)V'' vm)"
    by auto
next
  assume f: "resolution_fails env g vm"
  from bridge_unresolved [OF f, of s] assms show g: "g' = g" by simp
  from f show n: "newShortID g' = NULL" by (simp add: g resolution_fails_iff)
  show "\<forall>env2 s2 vm2. \<exists>rest.
      trace (snd (snd (java_lang_Short_new env2 s2 (g', vm2)))) =
      trace vm2 @ Call_GetMethodID env2 (SHORT_TYPE g) ''<init>'' ''(S)V'' # rest"
  proof (intro allI)
    fix env2 s2 vm2
    show "\<exists>rest. trace (snd (snd (java_lang_Short_new env2 s2 (g', vm2)))) =
      trace vm2 @ Call_GetMethodID env2 (SHORT_TYPE g) ''<init>'' ''(S)V'' # rest"
    proof (cases "lookup_method vm2 (SHORT_TYPE g') ''<init>'' ''(S)V'' = NULL")
      case True
      with n have "resolution_fails env2 g' vm2" by (simp add: resolution_fails_iff)
      from bridge_unresolved [OF this, of s2] show ?thesis by (simp add: g)
    next
      case False
      from bridge_resolved [OF n refl False, of env2 s2] show ?thesis by (simp add: g)
    qed
  qed
qed

theorem cache_set_only_by_successful_resolution_witness:
  "java_lang_Short_new 1 5 (example_globals, misconfigured_jvm) =
     (NULL, example_globals,
      misconfigured_jvm\<lparr>pending := Some NoSuchMethodError,
        trace := [Call_GetMethodID 1 7 ''<init>'' ''(S)V'']\<rparr>) \<and>
   resolution_fails 1 example_globals misconfigured_jvm \<and>
   newShortID example_globals = NULL \<and>
   (\<exists>rest. trace (snd (snd (java_lang_Short_new 2 6 (example_globals, example_jvm)))) =
      trace example_jvm @ Call_GetMethodID 2 (SHORT_TYPE example_globals) ''<init>'' ''(S)V''
        # rest) \<and>
   java_lang_Short_new 1 5 (example_globals, example_jvm) =
     (1, example_globals\<lparr>newShortID := 42\<rparr>,
      example_jvm\<lparr>heap := [(7, 5)],
        trace := [Call_GetMethodID 1 7 ''<init>'' ''(S)V'', Call_NewObject 1 7 42 5]\<rparr>) \<and>
   newShortID (example_globals\<lparr>newShortID := 42\<rparr>) \<noteq> newShortID example_globals \<and>
   \<not> resolution_fails 1 example_globals example_jvm \<and>
   newShortID (example_globals\<lparr>newShortID := 42\<rparr>) =
     fst (GetMethodID 1 (SHORT_TYPE example_globals) ''<init>'' ''(S)V'' example_jvm)"
proof -
  let ?vm' = "misconfigured_jvm\<lparr>pending := Some NoSuchMethodError,
        trace := [Call_GetMethodID 1 7 ''<init>'' ''(S)V'']\<rparr>"
  let ?vm'' = "example_jvm\<lparr>heap := [(7, 5)],
        trace := [Call_GetMethodID 1 7 ''<init>'' ''(S)V'', Call_NewObject 1 7 42 5]\<rparr>"
  have a: "java_lang_Short_new 1 5 (example_globals, misconfigured_jvm) =
      (NULL, example_globals, ?vm')"
    by (simp add: bridge_defs example_defs)
  have b: "resolution_fails 1 example_globals misconfigured_jvm"
    by (simp add: resolution_fails_iff lookup_method_def example_defs)
  have c: "java_lang_Short_new 1 5 (example_globals, example_jvm) =
      (1, example_globals\<lparr>newShortID := 42\<rparr>, ?vm'')"
    by (simp add: bridge_defs example_defs)
  have d: "newShortID (example_globals\<lparr>newShortID := 42\<rparr>) \<noteq> newShortID example_globals"
    by (simp add: example_defs)
  from a b c d cache_set_only_by_successful_resolution [OF a]
    cache_set_only_by_successful_resolution [OF c]
  show ?thesis by blast
qed

text \<open>
  Claim C9. The only static the bridge writes is \<open>newShortID\<close>: after a call the
  statics are those before it with, at most, a new value of \<open>newShortID\<close>;
  \<open>SHORT_TYPE\<close> and every other static of the process are unchanged. What is stored is
  the old value or the identifier the runtime knows for the constructor, and the statics
  after the call are the same for every handle and every value: the handle is not kept.
\<close>

theorem java_lang_Short_new_writes_only_newShortID:
  "case java_lang_Short_new env s (g, vm) of
     (obj, g', vm') \<Rightarrow>
       g' = g\<lparr>newShortID := newShortID g'\<rparr> \<and>
       SHORT_TYPE g' = SHORT_TYPE g \<and> globals.more g' = globals.more g \<and>
       newShortID g' \<in> {newShortID g, lookup_method vm (SHORT_TYPE g) ''<init>'' ''(S)V''} \<and>
       (\<forall>env2 s2. fst (snd (java_lang_Short_new env2 s2 (g, vm))) = g')"
proof -
  obtain obj g' vm' where r: "java_lang_Short_new env s (g, vm) = (obj, g', vm')"
    by (cases "java_lang_Short_new env s (g, vm)")
  have g': "g' = (if newShortID g \<noteq> NULL then g
      else g\<lparr>newShortID := lookup_method vm (SHORT_TYPE g) ''<init>'' ''(S)V''\<rparr>)"
    using bridge_globals [of env s g vm] r by simp
  have "\<forall>env2 s2. fst (snd (java_lang_Short_new env2 s2 (g, vm))) = g'"
    by (simp only: bridge_globals g') simp
  moreover have "g' = g\<lparr>newShortID := newShortID g'\<rparr>"
    and "SHORT_TYPE g' = SHORT_TYPE g" and "globals.more g' = globals.more g"
    and "newShortID g' \<in> {newShortID g, lookup_method vm (SHORT_TYPE g) ''<init>'' ''(S)V''}"
    by (simp_all add: g')
  ultimately show ?thesis by (simp add: r)
qed

theorem java_lang_Short_new_writes_only_newShortID_witness:
  "case java_lang_Short_new 1 5
          (\<lparr>newShortID = NULL, SHORT_TYPE = 7, \<dots> = (99 :: nat)\<rparr>, example_jvm) of
     (obj, g', vm') \<Rightarrow>
       SHORT_TYPE g' = 7 \<and> globals.more g' = 99 \<and> newShortID g' \<in> {NULL, 42} \<and>
       fst (snd (java_lang_Short_new 2 6
         (\<lparr>newShortID = NULL, SHORT_TYPE = 7, \<dots> = (99 :: nat)\<rparr>, example_jvm))) = g'"
proof -
  have "lookup_method example_jvm 7 ''<init>'' ''(S)V'' = 42"
    by (simp add: lookup_method_def example_defs)
  with java_lang_Short_new_writes_only_newShortID
    [where env = 1 and s = 5 and vm = example_jvm
       and g = "\<lparr>newShortID = NULL, SHORT_TYPE = 7, \<dots> = (99 :: nat)\<rparr>"]
  show ?thesis by (simp add: case_prod_beta)
qed

text \<open>
  Claim C10. When the resolution succeeds, the bridge returns exactly the result of the
  construction call of the runtime, with no check for null; so the caller can receive
  null although the identifier was resolved, as it does when the construction fails.
\<close>

theorem construction_result_returned_unchecked:
  "(\<not> resolution_fails env g vm \<longrightarrow>
      (case java_lang_Short_new env s (g, vm) of
         (obj, g', vm') \<Rightarrow>
           (obj, vm') =
           NewObject env (SHORT_TYPE g) (newShortID g') s
             (snd (JNI_METHOD (newShortID g) env (SHORT_TYPE g) ''<init>'' ''(S)V'' vm)))) \<and>
   (\<exists>g0 :: globals. \<exists>vm0.
      \<not> resolution_fails env g0 vm0 \<and> fst (java_lang_Short_new env s (g0, vm0)) = NULL)"
proof
  show "\<not> resolution_fails env g vm \<longrightarrow>
      (case java_lang_Short_new env s (g, vm) of
         (obj, g', vm') \<Rightarrow>
           (obj, vm') =
           NewObject env (SHORT_TYPE g) (newShortID g') s
             (snd (JNI_METHOD (newShortID g) env (SHORT_TYPE g) ''<init>'' ''(S)V'' vm)))"
    by (simp add: java_lang_Short_new_def resolution_fails_def Let_def split: prod.splits)
  have "\<not> resolution_fails env example_globals exhausted_jvm"
    by (simp add: resolution_fails_iff lookup_method_def example_defs)
  moreover have "fst (java_lang_Short_new env s (example_globals, exhausted_jvm)) = NULL"
    by (simp add: bridge_defs example_defs)
  ultimately show "\<exists>g0 :: globals. \<exists>vm0.
      \<not> resolution_fails env g0 vm0 \<and> fst (java_lang_Short_new env s (g0, vm0)) = NULL"
    by blast
qed

theorem construction_result_returned_unchecked_witness:
  "\<not> resolution_fails 1 example_globals exhausted_jvm \<and>
   (case java_lang_Short_new 1 5 (example_globals, exhausted_jvm) of
      (obj, g', vm') \<Rightarrow>
        (obj, vm') =
        NewObject 1 (SHORT_TYPE example_globals) (newShortID g') 5
          (snd (JNI_METHOD (newShortID example_globals) 1 (SHORT_TYPE example_globals)
                 ''<init>'' ''(S)V'' exhausted_jvm))) \<and>
   fst (java_lang_Short_new 1 5 (example_globals, exhausted_jvm)) = NULL"
proof -
  have a: "\<not> resolution_fails 1 example_globals exhausted_jvm"
    by (simp add: resolution_fails_iff lookup_method_def example_defs)
  have b: "fst (java_lang_Short_new 1 5 (example_globals, exhausted_jvm)) = NULL"
    by (simp add: bridge_defs example_defs)
  from a b construction_result_returned_unchecked
    [where env = 1 and s = 5 and g = example_globals and vm = exhausted_jvm]
  show ?thesis by simp
qed

end
